theory Spec2Isabelle
  imports Main
begin

section \<open>The call-quality scorecard stack\<close>

text \<open>
  A shallow embedding of \<^verbatim>\<open>lib/call-quality-scorecard-stack.ts\<close>. The stack is a
  declarative description: a bucket, a deployment of configuration files into it, three
  access policies, and two functions (the stages), each with an execution role, an
  environment, a time budget and an event source. Every construct is a record holding
  the properties the source writes; a property the source leaves out is \<open>None\<close>, and
  what the constructor of a construct does with it is written in the constructor or in the
  function that reads it. The handlers of the two stages are not among the sources: what
  the development needs of them is modelled from the specification, and marked so.
\<close>

subsection \<open>Strings: prefixes and wildcard patterns\<close>

definition starts_with :: "string \<Rightarrow> string \<Rightarrow> bool" where
  "starts_with p s = (take (length p) s = p)"

definition ends_with :: "string \<Rightarrow> string \<Rightarrow> bool" where
  "ends_with p s = (drop (length s - length p) s = p)"

text \<open>
  Actions and resources of a policy statement, and the event types of a notification,
  are patterns: \<open>*\<close> stands for any run of characters, \<open>?\<close> for any one character,
  every other character for itself, in the letter case it is written in.
\<close>

fun glob :: "string \<Rightarrow> string \<Rightarrow> bool" where
  "glob [] [] = True"
| "glob [] (c # cs) = False"
| "glob (p # ps) [] = (p = CHR ''*'' \<and> glob ps [])"
| "glob (p # ps) (c # cs) =
     (if p = CHR ''*'' then glob ps (c # cs) \<or> glob (p # ps) cs
      else (p = CHR ''?'' \<or> p = c) \<and> glob ps cs)"

definition wildfree :: "string \<Rightarrow> bool" where
  "wildfree s = (CHR ''*'' \<notin> set s \<and> CHR ''?'' \<notin> set s)"

subsection \<open>Constructs\<close>

datatype RemovalPolicy = RETAIN | DESTROY | SNAPSHOT

datatype BlockPublicAccess = BLOCK_ALL | BLOCK_ACLS

datatype Runtime = NODEJS_16_X

datatype Architecture = ARM_64 | X86_64

datatype RetentionDays = ONE_DAY | ONE_WEEK | ONE_MONTH

text \<open>A duration, in seconds: \<^verbatim>\<open>Duration.seconds(n)\<close>.\<close>

type_synonym Duration = nat

definition seconds :: "nat \<Rightarrow> Duration" where
  "seconds n = n"

record LifecycleRule =
  expiration :: "Duration option"

record Bucket =
  blockPublicAccess :: BlockPublicAccess
  removalPolicy :: RemovalPolicy
  lifecycleRules :: "LifecycleRule list option"
  autoDeleteObjects :: "bool option"
  bucketName :: string
  bucketArn :: string

text \<open>A source of a deployment: the directory of \<^verbatim>\<open>Source.asset(dir)\<close>.\<close>

datatype Source = Asset string

record BucketDeployment =
  deploymentId :: string
  sources :: "Source list"
  destinationBucket :: Bucket
  destinationKeyPrefix :: string
  prune :: "bool option"
  retainOnDelete :: bool

record PolicyStatement =
  actions :: "string list"
  resources :: "string list"

record Policy =
  policyName :: string
  statements :: "PolicyStatement list"

record Role =
  managedPolicies :: "Policy list"
  inlinePolicies :: "Policy list"

record NotificationKeyFilter =
  prefix :: "string option"
  suffix :: "string option"

record S3EventSource =
  source_bucket :: Bucket
  events :: "string list"
  filters :: "NotificationKeyFilter list"

record LambdaFunction =
  constructId :: string
  functionName :: string
  runtime :: Runtime
  entry :: string
  architecture :: Architecture
  memorySize :: nat
  timeout :: Duration
  nodeModules :: "string list"
  environment :: "(string \<times> string) list"
  logRetention :: RetentionDays
  fnRemovalPolicy :: "RemovalPolicy option"
  role :: "Role option"
  eventSources :: "S3EventSource list"

text \<open>
  What the stack reads from its surroundings: its region and account, the name and the
  resource name the store gets when it is created, and the directories beside the source
  file: for each directory, its files as pairs of a path below the directory and a
  content.
\<close>

record StackEnv =
  region :: string
  account :: string
  physicalBucketName :: string
  physicalBucketArn :: string
  directory :: "string \<Rightarrow> (string \<times> string) list"

record Stack =
  bucket :: Bucket
  deployConfig :: BucketDeployment
  s3Policy :: Policy
  transcribePolicy :: Policy
  bedrockRuntimePolicy :: Policy
  lambdaAudioToText :: LambdaFunction
  lambdaCallAnalysis :: LambdaFunction

subsection \<open>Operations on a function construct\<close>

text \<open>
  The managed policy that the function library attaches to the role it creates for a
  function: writing the function's log.
\<close>

definition AWSLambdaBasicExecutionRole :: Policy where
  "AWSLambdaBasicExecutionRole =
     \<lparr>policyName = ''AWSLambdaBasicExecutionRole'',
      statements =
        [\<lparr>actions = [''logs:CreateLogGroup'', ''logs:CreateLogStream'', ''logs:PutLogEvents''],
          resources = [''*'']\<rparr>]\<rparr>"

text \<open>
  \<^verbatim>\<open>new NodejsFunction(this, id, props)\<close>. The properties are the fields the source
  writes. The constructor adds what the source leaves to it: with no role among the
  properties, a role of its own that carries the managed policy above and no inline
  policy; and, its connection reuse not being switched off, the variable
  \<^verbatim>\<open>AWS_NODEJS_CONNECTION_REUSE_ENABLED\<close> in the environment. A new function has no event
  source and no removal policy.
\<close>

definition NodejsFunction :: "LambdaFunction \<Rightarrow> LambdaFunction" where
  "NodejsFunction props =
     props
       \<lparr>environment :=
          environment props @ [(''AWS_NODEJS_CONNECTION_REUSE_ENABLED'', ''1'')],
        role :=
          (case role props of
             None \<Rightarrow>
               Some \<lparr>managedPolicies = [AWSLambdaBasicExecutionRole], inlinePolicies = []\<rparr>
           | Some r \<Rightarrow> Some r)\<rparr>"

definition applyRemovalPolicy :: "RemovalPolicy \<Rightarrow> LambdaFunction \<Rightarrow> LambdaFunction" where
  "applyRemovalPolicy p f = f\<lparr>fnRemovalPolicy := Some p\<rparr>"

text \<open>\<^verbatim>\<open>f.role?.attachInlinePolicy(p)\<close>: nothing happens when there is no role.\<close>

definition attachInlinePolicy :: "Policy \<Rightarrow> LambdaFunction \<Rightarrow> LambdaFunction" where
  "attachInlinePolicy p f =
     (case role f of
        None \<Rightarrow> f
      | Some r \<Rightarrow> f\<lparr>role := Some (r\<lparr>inlinePolicies := inlinePolicies r @ [p]\<rparr>)\<rparr>)"

definition addEventSource :: "S3EventSource \<Rightarrow> LambdaFunction \<Rightarrow> LambdaFunction" where
  "addEventSource s f = f\<lparr>eventSources := eventSources f @ [s]\<rparr>"

definition OBJECT_CREATED :: string where
  "OBJECT_CREATED = ''s3:ObjectCreated:*''"

subsection \<open>The stack\<close>

definition createBucket :: "StackEnv \<Rightarrow> Bucket" where
  "createBucket env =
     \<lparr>blockPublicAccess = BLOCK_ALL,
      removalPolicy = RETAIN,
      lifecycleRules = None,
      autoDeleteObjects = None,
      bucketName = physicalBucketName env,
      bucketArn = physicalBucketArn env\<rparr>"

definition uploadConfigToBucket :: "Bucket \<Rightarrow> BucketDeployment" where
  "uploadConfigToBucket b =
     \<lparr>deploymentId = ''DeployConfig'',
      sources = [Asset ''./config''],
      destinationBucket = b,
      destinationKeyPrefix = ''config'',
      prune = None,
      retainOnDelete = True\<rparr>"

definition createS3Policy :: "Bucket \<Rightarrow> Policy" where
  "createS3Policy b =
     \<lparr>policyName = ''S3Policy'',
      statements =
        [\<lparr>actions = [''s3:*''],
          resources = [bucketArn b, bucketArn b @ ''/*'']\<rparr>]\<rparr>"

definition createTranscribePolicy :: "StackEnv \<Rightarrow> Policy" where
  "createTranscribePolicy env =
     \<lparr>policyName = ''TranscribePolicy'',
      statements =
        [\<lparr>actions = [''transcribe:*''],
          resources = [''arn:aws:transcribe:'' @ region env @ '':'' @ account env @ '':*'']\<rparr>]\<rparr>"

definition createBedrockRuntimePolicy :: Policy where
  "createBedrockRuntimePolicy =
     \<lparr>policyName = ''BedrockRuntimePolicy'',
      statements =
        [\<lparr>actions = [''bedrock:InvokeModel'', ''bedrock:InvokeModelWithResponseStream''],
          resources = [''*'']\<rparr>]\<rparr>"

definition createLambdaS3TriggerTranscribeFunction ::
  "Bucket \<Rightarrow> Policy \<Rightarrow> Policy \<Rightarrow> LambdaFunction" where
  "createLambdaS3TriggerTranscribeFunction b s3p trp =
     (let lambdaFunction = NodejsFunction
        \<lparr>constructId = ''S3RecordingTriggerTranscribe'',
         functionName = ''audio-to-text'',
         runtime = NODEJS_16_X,
         entry = ''lambda/audio-to-text.js'',
         architecture = ARM_64,
         memorySize = 128,
         timeout = seconds 15,
         nodeModules = [],
         environment = [(''OUTPUT_BUCKET'', bucketName b)],
         logRetention = ONE_WEEK,
         fnRemovalPolicy = None,
         role = None,
         eventSources = []\<rparr>;
        lambdaFunction = applyRemovalPolicy DESTROY lambdaFunction;
        lambdaFunction = attachInlinePolicy s3p lambdaFunction;
        lambdaFunction = attachInlinePolicy trp lambdaFunction;
        lambdaFunction = addEventSource
          \<lparr>source_bucket = b,
           events = [OBJECT_CREATED],
           filters = [\<lparr>prefix = Some ''voices/'', suffix = None\<rparr>]\<rparr> lambdaFunction
      in lambdaFunction)"

definition createLambdaS3TriggerBedrockFunction ::
  "Bucket \<Rightarrow> Policy \<Rightarrow> Policy \<Rightarrow> Policy \<Rightarrow> LambdaFunction" where
  "createLambdaS3TriggerBedrockFunction b s3p trp bdp =
     (let lambdaFunction = NodejsFunction
        \<lparr>constructId = ''S3TranscriptionTriggerBedrock'',
         functionName = ''call-scoring'',
         runtime = NODEJS_16_X,
         entry = ''lambda/call-scoring.js'',
         architecture = ARM_64,
         memorySize = 128,
         timeout = seconds 120,
         nodeModules = [''@aws-sdk/client-bedrock-runtime'', ''@aws-sdk/client-s3''],
         environment = [(''OUTPUT_BUCKET'', bucketName b)],
         logRetention = ONE_WEEK,
         fnRemovalPolicy = None,
         role = None,
         eventSources = []\<rparr>;
        lambdaFunction = applyRemovalPolicy DESTROY lambdaFunction;
        lambdaFunction = attachInlinePolicy s3p lambdaFunction;
        lambdaFunction = attachInlinePolicy trp lambdaFunction;
        lambdaFunction = attachInlinePolicy bdp lambdaFunction;
        lambdaFunction = addEventSource
          \<lparr>source_bucket = b,
           events = [OBJECT_CREATED],
           filters = [\<lparr>prefix = Some ''transcription/'', suffix = None\<rparr>]\<rparr> lambdaFunction
      in lambdaFunction)"

text \<open>The constructor, in the order of the source.\<close>

definition CallQualityScorecardStack :: "StackEnv \<Rightarrow> Stack" where
  "CallQualityScorecardStack env =
     (let b = createBucket env;
          d = uploadConfigToBucket b;
          s3p = createS3Policy b;
          trp = createTranscribePolicy env;
          bdp = createBedrockRuntimePolicy
      in \<lparr>bucket = b,
          deployConfig = d,
          s3Policy = s3p,
          transcribePolicy = trp,
          bedrockRuntimePolicy = bdp,
          lambdaAudioToText = createLambdaS3TriggerTranscribeFunction b s3p trp,
          lambdaCallAnalysis = createLambdaS3TriggerBedrockFunction b s3p trp bdp\<rparr>)"

text \<open>The two stages of a stack.\<close>

definition stages :: "Stack \<Rightarrow> LambdaFunction list" where
  "stages S = [lambdaAudioToText S, lambdaCallAnalysis S]"

text \<open>A stack in a concrete environment, for evaluation.\<close>

definition env0 :: StackEnv where
  "env0 =
     \<lparr>region = ''eu-west-1'',
      account = ''111122223333'',
      physicalBucketName = ''summarizer-bucket'',
      physicalBucketArn = ''arn:aws:s3:::summarizer-bucket'',
      directory =
        (\<lambda>d. if d = ''./config'' then [(''prompt.txt'', ''Score the call.'')] else [])\<rparr>"

text \<open>
  A world for evaluation: the bucket of \<open>env0\<close> holds a recording and a configuration
  object that is not among the files of the directory.
\<close>

definition world0 :: "string \<Rightarrow> string \<rightharpoonup> string" where
  "world0 =
     (\<lambda>b. if b = ''summarizer-bucket''
          then [''voices/call-42.wav'' \<mapsto> ''audio'', ''config/old.txt'' \<mapsto> ''Old prompt.'']
          else Map.empty)"

subsection \<open>What an execution identity may do\<close>

text \<open>
  A statement allows an action on a resource when one of its action patterns matches the
  action and one of its resource patterns matches the resource; a policy allows what one
  of its statements allows; the identity of a function allows what one of the managed or
  inline policies of its role allows (nothing, without a role).
\<close>

definition statement_allows :: "PolicyStatement \<Rightarrow> string \<Rightarrow> string \<Rightarrow> bool" where
  "statement_allows st a r =
     ((\<exists>p \<in> set (actions st). glob p a) \<and> (\<exists>p \<in> set (resources st). glob p r))"

definition policy_allows :: "Policy \<Rightarrow> string \<Rightarrow> string \<Rightarrow> bool" where
  "policy_allows p a r = (\<exists>st \<in> set (statements p). statement_allows st a r)"

definition identity_allows :: "LambdaFunction \<Rightarrow> string \<Rightarrow> string \<Rightarrow> bool" where
  "identity_allows f a r =
     (case role f of
        None \<Rightarrow> False
      | Some ro \<Rightarrow> \<exists>p \<in> set (managedPolicies ro @ inlinePolicies ro). policy_allows p a r)"

definition attached_policies :: "LambdaFunction \<Rightarrow> string list" where
  "attached_policies f =
     (case role f of None \<Rightarrow> [] | Some ro \<Rightarrow> map policyName (inlinePolicies ro))"

definition managed_policies :: "LambdaFunction \<Rightarrow> string list" where
  "managed_policies f =
     (case role f of None \<Rightarrow> [] | Some ro \<Rightarrow> map policyName (managedPolicies ro))"

text \<open>The three actions of writing a log.\<close>

definition logs_action :: "string \<Rightarrow> bool" where
  "logs_action a =
     (a = ''logs:CreateLogGroup'' \<or> a = ''logs:CreateLogStream'' \<or> a = ''logs:PutLogEvents'')"

text \<open>The resource name of the object stored under a key of a bucket.\<close>

definition arnForObjects :: "Bucket \<Rightarrow> string \<Rightarrow> string" where
  "arnForObjects b k = bucketArn b @ ''/'' @ k"

subsection \<open>Notifications and invocation\<close>

text \<open>
  The store announces an event on one of its keys. An event source triggers on a
  notification of its own bucket whose event name matches one of the source's event
  types and whose key passes every filter of the source; a function is invoked by a
  notification that one of its event sources triggers on.
\<close>

record Notification =
  from_bucket :: string
  eventName :: string
  key :: string

definition filter_matches :: "NotificationKeyFilter \<Rightarrow> string \<Rightarrow> bool" where
  "filter_matches f k =
     ((case prefix f of None \<Rightarrow> True | Some p \<Rightarrow> starts_with p k)
      \<and> (case suffix f of None \<Rightarrow> True | Some s \<Rightarrow> ends_with s k))"

definition source_triggers :: "S3EventSource \<Rightarrow> Notification \<Rightarrow> bool" where
  "source_triggers s n =
     (from_bucket n = bucketName (source_bucket s)
      \<and> (\<exists>e \<in> set (events s). glob e (eventName n))
      \<and> (\<forall>f \<in> set (filters s). filter_matches f (key n)))"

definition invokes :: "LambdaFunction \<Rightarrow> Notification \<Rightarrow> bool" where
  "invokes f n = (\<exists>s \<in> set (eventSources f). source_triggers s n)"

subsection \<open>Objects in the store\<close>

text \<open>
  The objects of a bucket, by key, and the buckets of the world, by name.
\<close>

type_synonym ObjectStore = "string \<rightharpoonup> string"

type_synonym World = "string \<Rightarrow> ObjectStore"

subsection \<open>The configuration deployment\<close>

text \<open>
  The deployment takes the files of each of its source directories, in the order of the
  sources, and gives each the key made of the destination prefix, a slash and the file's
  path.
\<close>

fun source_directory :: "Source \<Rightarrow> string" where
  "source_directory (Asset dir) = dir"

definition deployed :: "BucketDeployment \<Rightarrow> (string \<Rightarrow> (string \<times> string) list)
    \<Rightarrow> (string \<times> string) list" where
  "deployed d dirs =
     concat (map (\<lambda>src. map (\<lambda>(p, c). (destinationKeyPrefix d @ ''/'' @ p, c))
                             (dirs (source_directory src)))
                 (sources d))"

definition deployedKeys :: "BucketDeployment \<Rightarrow> (string \<Rightarrow> (string \<times> string) list)
    \<Rightarrow> string list" where
  "deployedKeys d dirs = map fst (deployed d dirs)"

text \<open>A deployment prunes unless its \<^verbatim>\<open>prune\<close> property says otherwise.\<close>

definition prunes :: "BucketDeployment \<Rightarrow> bool" where
  "prunes d = (case prune d of None \<Rightarrow> True | Some b \<Rightarrow> b)"

text \<open>
  Running the deployment synchronises the destination: each deployed key gets the
  content of its file (of the last source that has it); when the deployment prunes, every
  other object under the destination prefix is deleted; the objects elsewhere in the
  bucket, and the other buckets, stay as they are.
\<close>

definition sync :: "BucketDeployment \<Rightarrow> (string \<Rightarrow> (string \<times> string) list)
    \<Rightarrow> ObjectStore \<Rightarrow> ObjectStore" where
  "sync d dirs st =
     (\<lambda>k. case map_of (rev (deployed d dirs)) k of
            Some c \<Rightarrow> Some c
          | None \<Rightarrow>
              if prunes d \<and> starts_with (destinationKeyPrefix d @ ''/'') k then None
              else st k)"

definition deploy :: "BucketDeployment \<Rightarrow> (string \<Rightarrow> (string \<times> string) list)
    \<Rightarrow> World \<Rightarrow> World" where
  "deploy d dirs w =
     w(bucketName (destinationBucket d) :=
         sync d dirs (w (bucketName (destinationBucket d))))"

subsection \<open>The environment of a stage\<close>

definition injected_names :: "LambdaFunction \<Rightarrow> string list" where
  "injected_names f = map fst (environment f)"

text \<open>
  A value names a configuration key of a deployment when it is a key under the
  deployment's destination prefix. A function is given both the location of the store
  and the configuration key name when one of its variables holds the location and
  another one holds a value that names a configuration key.
\<close>

definition names_config_key :: "BucketDeployment \<Rightarrow> string \<Rightarrow> bool" where
  "names_config_key d v = starts_with (destinationKeyPrefix d @ ''/'') v"

definition injects_location_and_config_key ::
  "LambdaFunction \<Rightarrow> string \<Rightarrow> BucketDeployment \<Rightarrow> bool" where
  "injects_location_and_config_key f loc d =
     (\<exists>(k, v) \<in> set (environment f).
        v = loc \<and> (\<exists>(k', v') \<in> set (environment f). k' \<noteq> k \<and> names_config_key d v'))"

subsection \<open>The handlers of the stages\<close>

text \<open>
  Modelled from the spec: the errors that a handler raises, which are declared in the
  handlers and not among the sources. \<open>CompletionError\<close> stands for the failures of the
  completion service, to which the specification gives no name.
\<close>

datatype StageError =
    StorageError
  | TranscriptionError
  | CompletionError
  | ScoringFormatError
  | ConfigurationError

text \<open>
  Modelled from the spec: the function that derives the key of a stage's output, part of
  the handlers \<^verbatim>\<open>lambda/audio-to-text.js\<close> and \<^verbatim>\<open>lambda/call-scoring.js\<close>, which are
  not among the sources. The output key replaces the input prefix by the output prefix
  and the extension by the extension of the output.
\<close>

definition strip_extension :: "string \<Rightarrow> string" where
  "strip_extension k =
     (if CHR ''.'' \<in> set k then rev (tl (dropWhile (\<lambda>c. c \<noteq> CHR ''.'') (rev k))) else k)"

text \<open>
  Modelled from the spec: the derived key, for the handlers above.
\<close>

definition derive_key :: "string \<Rightarrow> string \<Rightarrow> string \<Rightarrow> string \<Rightarrow> string" where
  "derive_key inPrefix outPrefix ext k =
     outPrefix @ strip_extension (drop (length inPrefix) k) @ ext"

text \<open>
  Modelled from the spec: the step of the handler \<^verbatim>\<open>lambda/call-scoring.js\<close>, which is
  not among the sources, that fetches the scoring prompt template. The stage reads the
  location of the store from its environment and fetches the template by its key under
  \<^verbatim>\<open>config/\<close>; a missing location or a missing template is a configuration error.
\<close>

definition fetch_template :: "LambdaFunction \<Rightarrow> World \<Rightarrow> string \<Rightarrow> StageError + string" where
  "fetch_template f w name =
     (case map_of (environment f) ''OUTPUT_BUCKET'' of
        None \<Rightarrow> Inl ConfigurationError
      | Some b \<Rightarrow>
          (case w b (''config/'' @ name) of
             None \<Rightarrow> Inl ConfigurationError
           | Some t \<Rightarrow> Inr t))"

text \<open>
  Modelled from the spec: the handler \<^verbatim>\<open>lambda/audio-to-text.js\<close> of the Transcription
  Stage, which is not among the sources. It fetches the audio object of the key,
  submits it to the transcription service (a parameter: the transcript, or no answer on
  failure), and on completion writes the transcript under the derived key; on a failure
  it writes nothing.
\<close>

definition transcription_stage ::
  "LambdaFunction \<Rightarrow> (string \<Rightarrow> string option) \<Rightarrow> string \<Rightarrow> World \<Rightarrow> string
     \<Rightarrow> StageError + World" where
  "transcription_stage f transcribe ext w k =
     (case map_of (environment f) ''OUTPUT_BUCKET'' of
        None \<Rightarrow> Inl ConfigurationError
      | Some b \<Rightarrow>
          (case w b k of
             None \<Rightarrow> Inl StorageError
           | Some audio \<Rightarrow>
               (case transcribe audio of
                  None \<Rightarrow> Inl TranscriptionError
                | Some result \<Rightarrow>
                    Inr (w(b := (w b)(derive_key ''voices/'' ''transcription/'' ext k
                                        \<mapsto> result))))))"

text \<open>
  Modelled from the spec: the handler \<^verbatim>\<open>lambda/call-scoring.js\<close> of the Scoring Stage,
  which is not among the sources. It fetches the transcript of the key and the prompt
  template, calls the completion service (a parameter: the response, or no answer on
  failure), parses the response into a scorecard (a parameter: no result when the
  response is malformed), and on success writes the scorecard under the derived key; on
  a failure it writes nothing.
\<close>

definition scoring_stage ::
  "LambdaFunction \<Rightarrow> (string \<Rightarrow> string \<Rightarrow> string option) \<Rightarrow> (string \<Rightarrow> string option)
     \<Rightarrow> string \<Rightarrow> string \<Rightarrow> World \<Rightarrow> string \<Rightarrow> StageError + World" where
  "scoring_stage f complete parse name ext w k =
     (case map_of (environment f) ''OUTPUT_BUCKET'' of
        None \<Rightarrow> Inl ConfigurationError
      | Some b \<Rightarrow>
          (case w b k of
             None \<Rightarrow> Inl StorageError
           | Some transcript \<Rightarrow>
               (case fetch_template f w name of
                  Inl e \<Rightarrow> Inl e
                | Inr template \<Rightarrow>
                    (case complete template transcript of
                       None \<Rightarrow> Inl CompletionError
                     | Some response \<Rightarrow>
                         (case parse response of
                            None \<Rightarrow> Inl ScoringFormatError
                          | Some scorecard \<Rightarrow>
                              Inr (w(b := (w b)(derive_key ''transcription/'' ''scoring/'' ext k
                                                  \<mapsto> scorecard))))))))"

subsection \<open>Retention and removal\<close>






section \<open>Facts about strings and patterns\<close>

lemma starts_with_Nil: "starts_with [] s"
  by (simp add: starts_with_def)

lemma starts_with_Cons:
  "starts_with (p # ps) s = (case s of [] \<Rightarrow> False | c # cs \<Rightarrow> p = c \<and> starts_with ps cs)"
  by (cases s) (auto simp: starts_with_def)

lemmas starts_with_eval = starts_with_Nil starts_with_Cons

lemma starts_with_append: "starts_with p (p @ t)"
  by (simp add: starts_with_def)

lemma starts_with_hd:
  "starts_with (p # ps) s \<Longrightarrow> starts_with (q # qs) s \<Longrightarrow> p = q"
  by (cases s) (auto simp: starts_with_def)

lemma wildfree_Nil [simp]: "wildfree []"
  by (simp add: wildfree_def)

lemma wildfree_Cons [simp]:
  "wildfree (c # cs) = (c \<noteq> CHR ''*'' \<and> c \<noteq> CHR ''?'' \<and> wildfree cs)"
  by (auto simp: wildfree_def)

lemma wildfree_append [simp]: "wildfree (xs @ ys) = (wildfree xs \<and> wildfree ys)"
  by (auto simp: wildfree_def)

lemma glob_star_any: "glob ''*'' s"
  by (induction s) simp_all

text \<open>A pattern without wildcards but for a final star matches the strings it is a prefix of.\<close>

lemma glob_prefix_star: "wildfree l \<Longrightarrow> glob (l @ ''*'') s = starts_with l s"
proof (induction l arbitrary: s)
  case Nil
  then show ?case by (simp add: glob_star_any starts_with_Nil)
next
  case (Cons c l)
  then show ?case by (cases s) (auto simp: starts_with_Cons)
qed

text \<open>A pattern without wildcards matches itself only.\<close>

lemma glob_literal: "wildfree l \<Longrightarrow> glob l s = (s = l)"
proof (induction l arbitrary: s)
  case Nil
  then show ?case by (cases s) simp_all
next
  case (Cons c l)
  then show ?case by (cases s) auto
qed

lemma glob_s3: "glob ''s3:*'' a = starts_with ''s3:'' a"
  using glob_prefix_star [of "''s3:''" a] by simp

lemma glob_transcribe: "glob ''transcribe:*'' a = starts_with ''transcribe:'' a"
  using glob_prefix_star [of "''transcribe:''" a] by simp

lemma glob_created: "glob OBJECT_CREATED e = starts_with ''s3:ObjectCreated:'' e"
  using glob_prefix_star [of "''s3:ObjectCreated:''" e] by (simp add: OBJECT_CREATED_def)

lemma glob_invoke: "glob ''bedrock:InvokeModel'' a = (a = ''bedrock:InvokeModel'')"
  using glob_literal [of "''bedrock:InvokeModel''" a] by simp

lemma glob_invoke_stream:
  "glob ''bedrock:InvokeModelWithResponseStream'' a
     = (a = ''bedrock:InvokeModelWithResponseStream'')"
  using glob_literal [of "''bedrock:InvokeModelWithResponseStream''" a] by simp

lemma prefixes_apart:
  "starts_with ''bedrock:'' a \<Longrightarrow> \<not> starts_with ''s3:'' a"
  "starts_with ''bedrock:'' a \<Longrightarrow> \<not> starts_with ''transcribe:'' a"
  "starts_with ''lambda:'' a \<Longrightarrow> \<not> starts_with ''s3:'' a"
  "starts_with ''lambda:'' a \<Longrightarrow> \<not> starts_with ''transcribe:'' a"
  "starts_with ''s3:'' a \<Longrightarrow> \<not> starts_with ''transcribe:'' a"
  "starts_with ''config/'' a \<Longrightarrow> \<not> starts_with ''voices/'' a"
  "starts_with ''config/'' a \<Longrightarrow> \<not> starts_with ''transcription/'' a"
  by (auto dest: starts_with_hd)

section \<open>The constructs of the stack\<close>

lemmas function_ops =
  Let_def NodejsFunction_def applyRemovalPolicy_def attachInlinePolicy_def addEventSource_def

lemma bucket_stack: "bucket (CallQualityScorecardStack env) = createBucket env"
  by (simp add: CallQualityScorecardStack_def Let_def)

lemma deployConfig_stack:
  "deployConfig (CallQualityScorecardStack env) = uploadConfigToBucket (createBucket env)"
  by (simp add: CallQualityScorecardStack_def Let_def)

lemma policies_stack:
  "s3Policy (CallQualityScorecardStack env) = createS3Policy (createBucket env)"
  "transcribePolicy (CallQualityScorecardStack env) = createTranscribePolicy env"
  "bedrockRuntimePolicy (CallQualityScorecardStack env) = createBedrockRuntimePolicy"
  by (simp_all add: CallQualityScorecardStack_def Let_def)

lemma stages_cases:
  "f \<in> set (stages S) \<Longrightarrow> f = lambdaAudioToText S \<or> f = lambdaCallAnalysis S"
  by (auto simp: stages_def)

lemma stages_members:
  "lambdaAudioToText S \<in> set (stages S)" "lambdaCallAnalysis S \<in> set (stages S)"
  by (simp_all add: stages_def)

lemma wildfree_env0:
  "wildfree (region env0)" "wildfree (account env0)" "wildfree (physicalBucketArn env0)"
  by (simp_all add: env0_def)

lemma timeout_lambdaAudioToText:
  "timeout (lambdaAudioToText (CallQualityScorecardStack env)) = 15"
  by (simp add: CallQualityScorecardStack_def createLambdaS3TriggerTranscribeFunction_def
      function_ops seconds_def)

lemma timeout_lambdaCallAnalysis:
  "timeout (lambdaCallAnalysis (CallQualityScorecardStack env)) = 120"
  by (simp add: CallQualityScorecardStack_def createLambdaS3TriggerBedrockFunction_def
      function_ops seconds_def)

lemma role_lambdaAudioToText:
  "role (lambdaAudioToText (CallQualityScorecardStack env)) =
     Some \<lparr>managedPolicies = [AWSLambdaBasicExecutionRole],
           inlinePolicies = [createS3Policy (createBucket env), createTranscribePolicy env]\<rparr>"
  by (simp add: CallQualityScorecardStack_def createLambdaS3TriggerTranscribeFunction_def
      function_ops)

lemma role_lambdaCallAnalysis:
  "role (lambdaCallAnalysis (CallQualityScorecardStack env)) =
     Some \<lparr>managedPolicies = [AWSLambdaBasicExecutionRole],
           inlinePolicies = [createS3Policy (createBucket env), createTranscribePolicy env,
                             createBedrockRuntimePolicy]\<rparr>"
  by (simp add: CallQualityScorecardStack_def createLambdaS3TriggerBedrockFunction_def
      function_ops)

lemma eventSources_lambdaAudioToText:
  "eventSources (lambdaAudioToText (CallQualityScorecardStack env)) =
     [\<lparr>source_bucket = createBucket env, events = [OBJECT_CREATED],
       filters = [\<lparr>prefix = Some ''voices/'', suffix = None\<rparr>]\<rparr>]"
  by (simp add: CallQualityScorecardStack_def createLambdaS3TriggerTranscribeFunction_def
      function_ops)

lemma eventSources_lambdaCallAnalysis:
  "eventSources (lambdaCallAnalysis (CallQualityScorecardStack env)) =
     [\<lparr>source_bucket = createBucket env, events = [OBJECT_CREATED],
       filters = [\<lparr>prefix = Some ''transcription/'', suffix = None\<rparr>]\<rparr>]"
  by (simp add: CallQualityScorecardStack_def createLambdaS3TriggerBedrockFunction_def
      function_ops)

lemma environment_lambdaAudioToText:
  "environment (lambdaAudioToText (CallQualityScorecardStack env)) =
     [(''OUTPUT_BUCKET'', physicalBucketName env),
      (''AWS_NODEJS_CONNECTION_REUSE_ENABLED'', ''1'')]"
  by (simp add: CallQualityScorecardStack_def createLambdaS3TriggerTranscribeFunction_def
      function_ops createBucket_def)

lemma environment_lambdaCallAnalysis:
  "environment (lambdaCallAnalysis (CallQualityScorecardStack env)) =
     [(''OUTPUT_BUCKET'', physicalBucketName env),
      (''AWS_NODEJS_CONNECTION_REUSE_ENABLED'', ''1'')]"
  by (simp add: CallQualityScorecardStack_def createLambdaS3TriggerBedrockFunction_def
      function_ops createBucket_def)


lemma constructId_stages:
  "constructId (lambdaAudioToText (CallQualityScorecardStack env))
     = ''S3RecordingTriggerTranscribe''"
  "constructId (lambdaCallAnalysis (CallQualityScorecardStack env))
     = ''S3TranscriptionTriggerBedrock''"
  by (simp_all add: CallQualityScorecardStack_def createLambdaS3TriggerTranscribeFunction_def
      createLambdaS3TriggerBedrockFunction_def function_ops)

section \<open>What the three policies allow\<close>

lemma s3Policy_allows:
  assumes "wildfree (physicalBucketArn env)"
  shows "policy_allows (createS3Policy (createBucket env)) a r =
     (starts_with ''s3:'' a \<and>
      (r = physicalBucketArn env \<or> starts_with (physicalBucketArn env @ ''/'') r))"
proof -
  have 1: "glob (physicalBucketArn env) r = (r = physicalBucketArn env)"
    using assms by (rule glob_literal)
  have "glob ((physicalBucketArn env @ ''/'') @ ''*'') r
      = starts_with (physicalBucketArn env @ ''/'') r"
    using assms by (intro glob_prefix_star) simp
  then have 2: "glob (physicalBucketArn env @ ''/*'') r
      = starts_with (physicalBucketArn env @ ''/'') r"
    by simp
  show ?thesis
    by (simp add: policy_allows_def statement_allows_def createS3Policy_def createBucket_def
        glob_s3 1 2)
qed

lemma transcribePolicy_allows:
  assumes "wildfree (region env)" and "wildfree (account env)"
  shows "policy_allows (createTranscribePolicy env) a r =
     (starts_with ''transcribe:'' a \<and>
      starts_with (''arn:aws:transcribe:'' @ region env @ '':'' @ account env @ '':'') r)"
proof -
  have "glob ((''arn:aws:transcribe:'' @ region env @ '':'' @ account env @ '':'') @ ''*'') r
      = starts_with (''arn:aws:transcribe:'' @ region env @ '':'' @ account env @ '':'') r"
    using assms by (intro glob_prefix_star) simp
  then have 1: "glob (''arn:aws:transcribe:'' @ region env @ '':'' @ account env @ '':*'') r
      = starts_with (''arn:aws:transcribe:'' @ region env @ '':'' @ account env @ '':'') r"
    by simp
  show ?thesis
    by (simp only: policy_allows_def statement_allows_def createTranscribePolicy_def
        glob_transcribe 1 Policy.simps PolicyStatement.simps list.set bex_simps insert_iff
        empty_iff simp_thms)
qed

lemma transcribePolicy_action:
  "policy_allows (createTranscribePolicy env) a r \<Longrightarrow> starts_with ''transcribe:'' a"
  by (simp add: policy_allows_def statement_allows_def createTranscribePolicy_def
      glob_transcribe)

lemma s3Policy_action:
  "policy_allows (createS3Policy b) a r \<Longrightarrow> starts_with ''s3:'' a"
  by (simp add: policy_allows_def statement_allows_def createS3Policy_def glob_s3)

lemma bedrockPolicy_allows:
  "policy_allows createBedrockRuntimePolicy a r =
     (a = ''bedrock:InvokeModel'' \<or> a = ''bedrock:InvokeModelWithResponseStream'')"
  by (simp add: policy_allows_def statement_allows_def createBedrockRuntimePolicy_def
      glob_invoke glob_invoke_stream glob_star_any)

lemma glob_logs:
  "glob ''logs:CreateLogGroup'' a = (a = ''logs:CreateLogGroup'')"
  "glob ''logs:CreateLogStream'' a = (a = ''logs:CreateLogStream'')"
  "glob ''logs:PutLogEvents'' a = (a = ''logs:PutLogEvents'')"
  using glob_literal [of "''logs:CreateLogGroup''" a]
    glob_literal [of "''logs:CreateLogStream''" a]
    glob_literal [of "''logs:PutLogEvents''" a]
  by simp_all

lemma logsPolicy_allows:
  "policy_allows AWSLambdaBasicExecutionRole a r = logs_action a"
  by (simp add: policy_allows_def statement_allows_def AWSLambdaBasicExecutionRole_def
      glob_logs glob_star_any logs_action_def)

lemma logs_action_apart:
  "logs_action a \<Longrightarrow> \<not> starts_with ''s3:'' a"
  "logs_action a \<Longrightarrow> \<not> starts_with ''transcribe:'' a"
  "logs_action a \<Longrightarrow> \<not> starts_with ''bedrock:'' a"
  "logs_action a \<Longrightarrow> \<not> starts_with ''lambda:'' a"
  by (auto simp: logs_action_def starts_with_eval)

lemma identity_lambdaAudioToText:
  "identity_allows (lambdaAudioToText (CallQualityScorecardStack env)) a r =
     (logs_action a
      \<or> policy_allows (createS3Policy (createBucket env)) a r
      \<or> policy_allows (createTranscribePolicy env) a r)"
  by (simp add: identity_allows_def role_lambdaAudioToText logsPolicy_allows)

lemma identity_lambdaCallAnalysis:
  "identity_allows (lambdaCallAnalysis (CallQualityScorecardStack env)) a r =
     (logs_action a
      \<or> policy_allows (createS3Policy (createBucket env)) a r
      \<or> policy_allows (createTranscribePolicy env) a r
      \<or> policy_allows createBedrockRuntimePolicy a r)"
  by (simp add: identity_allows_def role_lambdaCallAnalysis logsPolicy_allows)

lemma attached_lambdaAudioToText:
  "attached_policies (lambdaAudioToText (CallQualityScorecardStack env)) =
     [''S3Policy'', ''TranscribePolicy'']"
  by (simp add: attached_policies_def role_lambdaAudioToText createS3Policy_def
      createTranscribePolicy_def)

lemma attached_lambdaCallAnalysis:
  "attached_policies (lambdaCallAnalysis (CallQualityScorecardStack env)) =
     [''S3Policy'', ''TranscribePolicy'', ''BedrockRuntimePolicy'']"
  by (simp add: attached_policies_def role_lambdaCallAnalysis createS3Policy_def
      createTranscribePolicy_def createBedrockRuntimePolicy_def)

lemma audio_no_bedrock:
  "starts_with ''bedrock:'' a \<Longrightarrow>
     \<not> identity_allows (lambdaAudioToText (CallQualityScorecardStack env)) a r"
  using s3Policy_action [of "createBucket env" a r] transcribePolicy_action [of env a r]
  by (auto simp add: identity_lambdaAudioToText prefixes_apart logs_action_apart)

lemma stage_no_lambda_action:
  assumes "f \<in> set (stages (CallQualityScorecardStack env))"
    and "starts_with ''lambda:'' a"
  shows "\<not> identity_allows f a r"
proof -
  have "\<not> policy_allows (createS3Policy (createBucket env)) a r"
    using s3Policy_action [of "createBucket env" a r] assms(2) prefixes_apart(3) by blast
  moreover have "\<not> policy_allows (createTranscribePolicy env) a r"
    using transcribePolicy_action [of env a r] assms(2) prefixes_apart(4) by blast
  moreover have "\<not> policy_allows createBedrockRuntimePolicy a r"
    using assms(2) by (auto simp: bedrockPolicy_allows starts_with_eval)
  moreover have "\<not> logs_action a"
    using assms(2) logs_action_apart(4) by blast
  ultimately show ?thesis
    using stages_cases [OF assms(1)]
    by (auto simp only: identity_lambdaAudioToText identity_lambdaCallAnalysis)
qed

section \<open>What invokes the stages\<close>

lemma invokes_lambdaAudioToText:
  "invokes (lambdaAudioToText (CallQualityScorecardStack env)) n =
     (from_bucket n = physicalBucketName env
      \<and> starts_with ''s3:ObjectCreated:'' (eventName n)
      \<and> starts_with ''voices/'' (key n))"
  by (simp add: invokes_def eventSources_lambdaAudioToText source_triggers_def
      filter_matches_def glob_created createBucket_def)

lemma invokes_lambdaCallAnalysis:
  "invokes (lambdaCallAnalysis (CallQualityScorecardStack env)) n =
     (from_bucket n = physicalBucketName env
      \<and> starts_with ''s3:ObjectCreated:'' (eventName n)
      \<and> starts_with ''transcription/'' (key n))"
  by (simp add: invokes_def eventSources_lambdaCallAnalysis source_triggers_def
      filter_matches_def glob_created createBucket_def)

section \<open>The deployment and the handlers\<close>

lemma deployed_stack:
  "deployed (deployConfig (CallQualityScorecardStack env)) dirs =
     map (\<lambda>(p, c). (''config/'' @ p, c)) (dirs ''./config'')"
  by (simp add: deployed_def deployConfig_stack uploadConfigToBucket_def)

lemma deployedKeys_stack:
  "deployedKeys (deployConfig (CallQualityScorecardStack env)) dirs =
     map (\<lambda>p. ''config/'' @ p) (map fst (dirs ''./config''))"
  by (simp add: deployedKeys_def deployed_stack case_prod_unfold comp_def)

lemma deployedKeys_config:
  "k \<in> set (deployedKeys (deployConfig (CallQualityScorecardStack env)) dirs)
     \<Longrightarrow> starts_with ''config/'' k"
  using starts_with_append [of "''config/''"]
  by (auto simp: deployedKeys_stack)

lemma deployed_distinct:
  assumes "distinct (map fst (dirs ''./config''))"
  shows "distinct (map fst (deployed (deployConfig (CallQualityScorecardStack env)) dirs))"
proof -
  have eq: "map fst (deployed (deployConfig (CallQualityScorecardStack env)) dirs)
      = map (\<lambda>p. ''config/'' @ p) (map fst (dirs ''./config''))"
    using deployedKeys_stack [of env dirs] by (simp only: deployedKeys_def)
  have inj: "inj_on (\<lambda>p. ''config/'' @ p) (set (map fst (dirs ''./config'')))"
    by (rule inj_onI) simp
  have "distinct (map (\<lambda>p. ''config/'' @ p) (map fst (dirs ''./config'')))"
    using assms inj by (intro iffD2 [OF distinct_map]) blast
  then show ?thesis
    by (simp only: eq)
qed

lemma lookup_deployed:
  assumes "(p, c) \<in> set (dirs ''./config'')"
    and "distinct (map fst (dirs ''./config''))"
  shows "map_of (rev (deployed (deployConfig (CallQualityScorecardStack env)) dirs))
           (''config/'' @ p) = Some c"
proof -
  let ?xs = "deployed (deployConfig (CallQualityScorecardStack env)) dirs"
  have "(''config/'' @ p, c) \<in> set (rev ?xs)"
    using assms(1) by (force simp: deployed_stack)
  moreover have "distinct (map fst (rev ?xs))"
    using deployed_distinct [of dirs env] assms(2) by (simp add: rev_map [symmetric])
  ultimately show ?thesis
    by (rule map_of_is_SomeI [rotated])
qed


lemma destination_stack:
  "bucketName (destinationBucket (deployConfig (CallQualityScorecardStack env)))
     = physicalBucketName env"
  "destinationKeyPrefix (deployConfig (CallQualityScorecardStack env)) = ''config''"
  "prunes (deployConfig (CallQualityScorecardStack env))"
  by (simp_all add: deployConfig_stack uploadConfigToBucket_def createBucket_def prunes_def)

lemma deploy_places:
  assumes "(p, c) \<in> set (dirs ''./config'')"
    and "distinct (map fst (dirs ''./config''))"
  shows "deploy (deployConfig (CallQualityScorecardStack env)) dirs w
           (physicalBucketName env) (''config/'' @ p) = Some c"
  using lookup_deployed [of p c dirs env] assms
  by (simp add: deploy_def sync_def destination_stack)


lemma location_stages:
  "map_of (environment (lambdaAudioToText (CallQualityScorecardStack env))) ''OUTPUT_BUCKET''
     = Some (physicalBucketName env)"
  "map_of (environment (lambdaCallAnalysis (CallQualityScorecardStack env))) ''OUTPUT_BUCKET''
     = Some (physicalBucketName env)"
  by (simp_all add: environment_lambdaAudioToText environment_lambdaCallAnalysis)

lemma transcription_stage_writes:
  assumes "transcription_stage f transcribe ext w k = Inr w'"
  shows "\<exists>b t. w' = w(b := (w b)(''transcription/''
            @ strip_extension (drop (length ''voices/'') k) @ ext \<mapsto> t))"
  using assms
  by (auto simp: transcription_stage_def derive_key_def split: option.splits)

lemma scoring_stage_writes:
  assumes "scoring_stage f complete parse name ext w k = Inr w'"
  shows "\<exists>b t. w' = w(b := (w b)(''scoring/''
            @ strip_extension (drop (length ''transcription/'') k) @ ext \<mapsto> t))"
  using assms
  by (auto simp: scoring_stage_def derive_key_def split: option.splits sum.splits)



lemma config_key_apart:
  "starts_with ''config/'' x \<Longrightarrow> x \<noteq> ''transcription/'' @ y"
  "starts_with ''config/'' x \<Longrightarrow> x \<noteq> ''scoring/'' @ y"
  using starts_with_hd [of "CHR ''c''" "''onfig/''" x "CHR ''t''" "''ranscription/''"]
    starts_with_hd [of "CHR ''c''" "''onfig/''" x "CHR ''s''" "''coring/''"]
    starts_with_append [of "''transcription/''" y] starts_with_append [of "''scoring/''" y]
  by auto

lemma transcription_stage_config:
  assumes "transcription_stage f transcribe ext w k = Inr w'" and "starts_with ''config/'' x"
  shows "w' b x = w b x"
  using transcription_stage_writes [OF assms(1)] config_key_apart(1) [OF assms(2)]
  by auto

lemma scoring_stage_config:
  assumes "scoring_stage f complete parse name ext w k = Inr w'" and "starts_with ''config/'' x"
  shows "w' b x = w b x"
  using scoring_stage_writes [OF assms(1)] config_key_apart(2) [OF assms(2)]
  by auto

section \<open>Permissions of the stage identities\<close>

text \<open>
  Claim C1, as amended. With a region, an account and a bucket resource name free of
  wildcards: the role of each stage carries the managed policy for writing its log; to
  it the source attaches the store policy and the transcription policy for the
  Transcription Stage, and these two and the completion policy for the Scoring Stage.
  The identity of the Transcription Stage allows exactly the three actions of writing a
  log, every store action on the bucket and its objects, and every transcription action
  on the resources of the stack's region and account; the identity of the Scoring Stage
  allows that and the two model invocation actions on any resource. The identity of the
  Transcription Stage allows no completion action.
\<close>

theorem stage_identity_permissions:
  assumes "wildfree (region env)" and "wildfree (account env)"
    and "wildfree (physicalBucketArn env)"
  shows "managed_policies (lambdaAudioToText (CallQualityScorecardStack env))
           = [''AWSLambdaBasicExecutionRole'']
    \<and> managed_policies (lambdaCallAnalysis (CallQualityScorecardStack env))
           = [''AWSLambdaBasicExecutionRole'']
    \<and> attached_policies (lambdaAudioToText (CallQualityScorecardStack env))
           = [''S3Policy'', ''TranscribePolicy'']
    \<and> attached_policies (lambdaCallAnalysis (CallQualityScorecardStack env))
           = [''S3Policy'', ''TranscribePolicy'', ''BedrockRuntimePolicy'']
    \<and> (identity_allows (lambdaAudioToText (CallQualityScorecardStack env)) a r
         \<longleftrightarrow> logs_action a
             \<or> starts_with ''s3:'' a
               \<and> (r = physicalBucketArn env \<or> starts_with (physicalBucketArn env @ ''/'') r)
             \<or> starts_with ''transcribe:'' a
               \<and> starts_with
                   (''arn:aws:transcribe:'' @ region env @ '':'' @ account env @ '':'') r)
    \<and> (identity_allows (lambdaCallAnalysis (CallQualityScorecardStack env)) a r
         \<longleftrightarrow> logs_action a
             \<or> starts_with ''s3:'' a
               \<and> (r = physicalBucketArn env \<or> starts_with (physicalBucketArn env @ ''/'') r)
             \<or> starts_with ''transcribe:'' a
               \<and> starts_with
                   (''arn:aws:transcribe:'' @ region env @ '':'' @ account env @ '':'') r
             \<or> a = ''bedrock:InvokeModel'' \<or> a = ''bedrock:InvokeModelWithResponseStream'')
    \<and> (starts_with ''bedrock:'' a
         \<longrightarrow> \<not> identity_allows (lambdaAudioToText (CallQualityScorecardStack env)) a r)"
proof -
  note s3 = s3Policy_allows [OF assms(3), of a r]
  note tr = transcribePolicy_allows [OF assms(1,2), of a r]
  have 1: "identity_allows (lambdaAudioToText (CallQualityScorecardStack env)) a r
         \<longleftrightarrow> logs_action a
             \<or> starts_with ''s3:'' a
               \<and> (r = physicalBucketArn env \<or> starts_with (physicalBucketArn env @ ''/'') r)
             \<or> starts_with ''transcribe:'' a
               \<and> starts_with
                   (''arn:aws:transcribe:'' @ region env @ '':'' @ account env @ '':'') r"
    by (simp only: identity_lambdaAudioToText s3 tr)
  have 2: "identity_allows (lambdaCallAnalysis (CallQualityScorecardStack env)) a r
         \<longleftrightarrow> logs_action a
             \<or> starts_with ''s3:'' a
               \<and> (r = physicalBucketArn env \<or> starts_with (physicalBucketArn env @ ''/'') r)
             \<or> starts_with ''transcribe:'' a
               \<and> starts_with
                   (''arn:aws:transcribe:'' @ region env @ '':'' @ account env @ '':'') r
             \<or> a = ''bedrock:InvokeModel'' \<or> a = ''bedrock:InvokeModelWithResponseStream''"
    by (simp only: identity_lambdaCallAnalysis s3 tr bedrockPolicy_allows)
  have 3: "starts_with ''bedrock:'' a
         \<longrightarrow> \<not> identity_allows (lambdaAudioToText (CallQualityScorecardStack env)) a r"
    using audio_no_bedrock by blast
  have 4: "managed_policies (lambdaAudioToText (CallQualityScorecardStack env))
             = [''AWSLambdaBasicExecutionRole'']
      \<and> managed_policies (lambdaCallAnalysis (CallQualityScorecardStack env))
             = [''AWSLambdaBasicExecutionRole'']"
    by (simp add: managed_policies_def role_lambdaAudioToText role_lambdaCallAnalysis
        AWSLambdaBasicExecutionRole_def)
  show ?thesis
    using 1 2 3 4 attached_lambdaAudioToText [of env] attached_lambdaCallAnalysis [of env]
    by blast
qed

text \<open>
  The amended claim at \<open>env0\<close>: invoking a model is allowed to the Scoring Stage and
  refused to the Transcription Stage, and writing the log is allowed to the Transcription
  Stage.
\<close>

theorem stage_identity_permissions_witness:
  "wildfree (region env0) \<and> wildfree (account env0) \<and> wildfree (physicalBucketArn env0)
   \<and> \<not> identity_allows (lambdaAudioToText (CallQualityScorecardStack env0))
         ''bedrock:InvokeModel'' ''arn:aws:bedrock:eu-west-1::foundation-model/m''
   \<and> identity_allows (lambdaCallAnalysis (CallQualityScorecardStack env0))
         ''bedrock:InvokeModel'' ''arn:aws:bedrock:eu-west-1::foundation-model/m''
   \<and> identity_allows (lambdaAudioToText (CallQualityScorecardStack env0))
         ''logs:PutLogEvents''
         ''arn:aws:logs:eu-west-1:111122223333:log-group:/aws/lambda/audio-to-text''"
proof -
  have b: "starts_with ''bedrock:'' ''bedrock:InvokeModel''"
    by (simp add: starts_with_eval)
  have l: "logs_action ''logs:PutLogEvents''"
    by (simp add: logs_action_def)
  have 1: "\<not> identity_allows (lambdaAudioToText (CallQualityScorecardStack env0))
         ''bedrock:InvokeModel'' ''arn:aws:bedrock:eu-west-1::foundation-model/m''
   \<and> identity_allows (lambdaCallAnalysis (CallQualityScorecardStack env0))
         ''bedrock:InvokeModel'' ''arn:aws:bedrock:eu-west-1::foundation-model/m''"
    using stage_identity_permissions [OF wildfree_env0,
        of "''bedrock:InvokeModel''" "''arn:aws:bedrock:eu-west-1::foundation-model/m''"] b
    by blast
  have 2: "identity_allows (lambdaAudioToText (CallQualityScorecardStack env0))
         ''logs:PutLogEvents''
         ''arn:aws:logs:eu-west-1:111122223333:log-group:/aws/lambda/audio-to-text''"
    using stage_identity_permissions [OF wildfree_env0,
        of "''logs:PutLogEvents''"
           "''arn:aws:logs:eu-west-1:111122223333:log-group:/aws/lambda/audio-to-text''"] l
    by blast
  show ?thesis using 1 2 wildfree_env0 by blast
qed

text \<open>
  Claim C1 as written fails: the identity of the Scoring Stage may read a transcription
  job of the stack's region and account from the transcription service.
\<close>

theorem scoring_identity_may_call_transcribe:
  "identity_allows (lambdaCallAnalysis (CallQualityScorecardStack env0))
     ''transcribe:GetTranscriptionJob''
     ''arn:aws:transcribe:eu-west-1:111122223333:transcription-job/call-42''"
proof -
  have "starts_with ''transcribe:'' ''transcribe:GetTranscriptionJob''"
    by (simp add: starts_with_eval)
  moreover have "starts_with
      (''arn:aws:transcribe:'' @ region env0 @ '':'' @ account env0 @ '':'')
      ''arn:aws:transcribe:eu-west-1:111122223333:transcription-job/call-42''"
    by (simp add: env0_def starts_with_eval)
  ultimately show ?thesis
    by (simp only: identity_lambdaCallAnalysis
        transcribePolicy_allows [OF wildfree_env0(1,2)] simp_thms)
qed

text \<open>
  Claim C2, as amended. With a bucket resource name free of wildcards, the store
  permission of each stage covers every store action on the bucket itself and on the
  object of every key of the bucket, whatever its prefix, and on nothing else.
\<close>

theorem store_permission_covers_whole_bucket:
  assumes "wildfree (physicalBucketArn env)"
    and "f \<in> set (stages (CallQualityScorecardStack env))"
    and "starts_with ''s3:'' a"
  shows "(identity_allows f a r
           \<longleftrightarrow> r = bucketArn (bucket (CallQualityScorecardStack env))
               \<or> starts_with (bucketArn (bucket (CallQualityScorecardStack env)) @ ''/'') r)
     \<and> identity_allows f a (arnForObjects (bucket (CallQualityScorecardStack env)) k)"
proof -
  let ?S = "CallQualityScorecardStack env"
  have arn: "bucketArn (bucket ?S) = physicalBucketArn env"
    by (simp add: bucket_stack createBucket_def)
  note s3 = s3Policy_allows [OF assms(1), of a]
  have notr: "\<not> policy_allows (createTranscribePolicy env) a r'" for r'
    using transcribePolicy_action [of env a r'] assms(3) prefixes_apart(5) by blast
  have nobd: "\<not> policy_allows createBedrockRuntimePolicy a r'" for r'
    using assms(3) by (auto simp: bedrockPolicy_allows starts_with_eval)
  have nolg: "\<not> logs_action a"
    using assms(3) logs_action_apart(1) by blast
  have iff: "identity_allows f a r'
      \<longleftrightarrow> r' = physicalBucketArn env \<or> starts_with (physicalBucketArn env @ ''/'') r'" for r'
    using stages_cases [OF assms(2)] assms(3) s3 [of r'] notr [of r'] nobd [of r'] nolg
    by (auto simp only: identity_lambdaAudioToText identity_lambdaCallAnalysis)
  have "starts_with (physicalBucketArn env @ ''/'') (physicalBucketArn env @ ''/'' @ k)"
    using starts_with_append [of "physicalBucketArn env @ ''/''" k] by simp
  then have "identity_allows f a (arnForObjects (bucket ?S) k)"
    by (simp only: iff arnForObjects_def arn simp_thms)
  then show ?thesis
    by (simp only: iff arn simp_thms)
qed

text \<open>
  The amended claim at \<open>env0\<close>: the Scoring Stage may delete a recording under
  \<^verbatim>\<open>voices/\<close>.
\<close>

theorem store_permission_covers_whole_bucket_witness:
  "wildfree (physicalBucketArn env0)
   \<and> lambdaCallAnalysis (CallQualityScorecardStack env0)
       \<in> set (stages (CallQualityScorecardStack env0))
   \<and> starts_with ''s3:'' ''s3:DeleteObject''
   \<and> identity_allows (lambdaCallAnalysis (CallQualityScorecardStack env0)) ''s3:DeleteObject''
        (arnForObjects (bucket (CallQualityScorecardStack env0)) ''voices/call-42.wav'')"
proof -
  have a: "starts_with ''s3:'' ''s3:DeleteObject''"
    by (simp add: starts_with_eval)
  show ?thesis
    using store_permission_covers_whole_bucket
        [OF wildfree_env0(3) stages_members(2) a, of _ "''voices/call-42.wav''"]
      wildfree_env0(3) stages_members(2) [of "CallQualityScorecardStack env0"] a
    by blast
qed

text \<open>
  Claim C2 as written fails: the identity of the Transcription Stage may write the object
  \<^verbatim>\<open>scoring/call-42.json\<close>, whose key is not under \<^verbatim>\<open>transcription/\<close>.
\<close>

theorem transcription_identity_may_write_outside_prefix:
  "identity_allows (lambdaAudioToText (CallQualityScorecardStack env0)) ''s3:PutObject''
     (arnForObjects (bucket (CallQualityScorecardStack env0)) ''scoring/call-42.json'')
   \<and> \<not> starts_with ''transcription/'' ''scoring/call-42.json''"
proof -
  have "starts_with ''s3:'' ''s3:PutObject''"
    by (simp add: starts_with_eval)
  moreover have "starts_with (physicalBucketArn env0 @ ''/'')
      (arnForObjects (bucket (CallQualityScorecardStack env0)) ''scoring/call-42.json'')"
    using starts_with_append [of "physicalBucketArn env0 @ ''/''" "''scoring/call-42.json''"]
    by (simp add: arnForObjects_def bucket_stack createBucket_def)
  ultimately have "identity_allows (lambdaAudioToText (CallQualityScorecardStack env0))
      ''s3:PutObject''
      (arnForObjects (bucket (CallQualityScorecardStack env0)) ''scoring/call-42.json'')"
    by (simp only: identity_lambdaAudioToText s3Policy_allows [OF wildfree_env0(3)] simp_thms)
  moreover have "\<not> starts_with ''transcription/'' ''scoring/call-42.json''"
    by (simp add: starts_with_eval)
  ultimately show ?thesis by blast
qed

text \<open>
  Claim C10. With a region and an account free of wildcards: the one statement of the
  completion policy names the resource pattern \<open>*\<close>, so the policy allows its two actions
  on every resource, and the identity of the Scoring Stage may invoke a model under any
  resource name; the transcription policy allows a transcription action only on a
  resource whose name starts with the transcription prefix of the stack's region and
  account.
\<close>

theorem completion_permission_unscoped:
  assumes "wildfree (region env)" and "wildfree (account env)"
  shows "map resources (statements (bedrockRuntimePolicy (CallQualityScorecardStack env)))
           = [[''*'']]
    \<and> (policy_allows (bedrockRuntimePolicy (CallQualityScorecardStack env)) a r
         \<longleftrightarrow> a = ''bedrock:InvokeModel'' \<or> a = ''bedrock:InvokeModelWithResponseStream'')
    \<and> identity_allows (lambdaCallAnalysis (CallQualityScorecardStack env))
         ''bedrock:InvokeModel'' r
    \<and> (policy_allows (transcribePolicy (CallQualityScorecardStack env)) a r
         \<longleftrightarrow> starts_with ''transcribe:'' a
             \<and> starts_with
                 (''arn:aws:transcribe:'' @ region env @ '':'' @ account env @ '':'') r)"
proof -
  have 1: "map resources (statements (bedrockRuntimePolicy (CallQualityScorecardStack env)))
      = [[''*'']]"
    by (simp add: policies_stack createBedrockRuntimePolicy_def)
  have 2: "identity_allows (lambdaCallAnalysis (CallQualityScorecardStack env))
      ''bedrock:InvokeModel'' r"
    by (simp add: identity_lambdaCallAnalysis bedrockPolicy_allows)
  show ?thesis
    using 1 2 transcribePolicy_allows [OF assms, of a r] bedrockPolicy_allows [of a r]
    by (simp only: policies_stack simp_thms)
qed

text \<open>
  The claim at \<open>env0\<close>: a model of another region may be invoked, and a transcription job
  of another account may not be started.
\<close>

theorem completion_permission_unscoped_witness:
  "wildfree (region env0) \<and> wildfree (account env0)
   \<and> identity_allows (lambdaCallAnalysis (CallQualityScorecardStack env0))
       ''bedrock:InvokeModel'' ''arn:aws:bedrock:us-east-1::foundation-model/m''
   \<and> \<not> policy_allows (transcribePolicy (CallQualityScorecardStack env0))
       ''transcribe:StartTranscriptionJob''
       ''arn:aws:transcribe:eu-west-1:999999999999:transcription-job/x''"
proof -
  have n: "\<not> starts_with (''arn:aws:transcribe:'' @ region env0 @ '':'' @ account env0 @ '':'')
      ''arn:aws:transcribe:eu-west-1:999999999999:transcription-job/x''"
    by (simp add: env0_def starts_with_eval)
  have 1: "identity_allows (lambdaCallAnalysis (CallQualityScorecardStack env0))
       ''bedrock:InvokeModel'' ''arn:aws:bedrock:us-east-1::foundation-model/m''"
    using completion_permission_unscoped [OF wildfree_env0(1,2)] by blast
  have 2: "\<not> policy_allows (transcribePolicy (CallQualityScorecardStack env0))
       ''transcribe:StartTranscriptionJob''
       ''arn:aws:transcribe:eu-west-1:999999999999:transcription-job/x''"
    using completion_permission_unscoped [OF wildfree_env0(1,2),
        of "''transcribe:StartTranscriptionJob''"
           "''arn:aws:transcribe:eu-west-1:999999999999:transcription-job/x''"] n
    by blast
  show ?thesis using 1 2 wildfree_env0(1,2) by blast
qed

section \<open>Triggers\<close>

text \<open>
  Claim C3. The Transcription Stage is invoked by a notification exactly when it comes
  from the stack's bucket, announces the creation of an object, and has a key that starts
  with \<^verbatim>\<open>voices/\<close>; the Scoring Stage exactly when it comes from the stack's bucket,
  announces the creation of an object, and has a key that starts with
  \<^verbatim>\<open>transcription/\<close>.
\<close>

theorem stage_triggers:
  "(invokes (lambdaAudioToText (CallQualityScorecardStack env)) n
      \<longleftrightarrow> from_bucket n = bucketName (bucket (CallQualityScorecardStack env))
          \<and> starts_with ''s3:ObjectCreated:'' (eventName n)
          \<and> starts_with ''voices/'' (key n))
   \<and> (invokes (lambdaCallAnalysis (CallQualityScorecardStack env)) n
      \<longleftrightarrow> from_bucket n = bucketName (bucket (CallQualityScorecardStack env))
          \<and> starts_with ''s3:ObjectCreated:'' (eventName n)
          \<and> starts_with ''transcription/'' (key n))"
  by (simp only: invokes_lambdaAudioToText invokes_lambdaCallAnalysis bucket_stack
      createBucket_def Bucket.simps simp_thms)

text \<open>
  The claim at \<open>env0\<close>: a recording put under \<^verbatim>\<open>voices/\<close> invokes the Transcription
  Stage and not the Scoring Stage.
\<close>

theorem stage_triggers_witness:
  "invokes (lambdaAudioToText (CallQualityScorecardStack env0))
     \<lparr>from_bucket = ''summarizer-bucket'', eventName = ''s3:ObjectCreated:Put'',
      key = ''voices/call-42.wav''\<rparr>
   \<and> \<not> invokes (lambdaCallAnalysis (CallQualityScorecardStack env0))
     \<lparr>from_bucket = ''summarizer-bucket'', eventName = ''s3:ObjectCreated:Put'',
      key = ''voices/call-42.wav''\<rparr>"
  using stage_triggers [of env0
      "\<lparr>from_bucket = ''summarizer-bucket'', eventName = ''s3:ObjectCreated:Put'',
        key = ''voices/call-42.wav''\<rparr>"]
  by (simp add: bucket_stack createBucket_def env0_def starts_with_eval)

text \<open>
  Claim C8. Each stage has one event source, on the stack's bucket and for the creation
  of objects; whatever invokes a stage is a notification of that bucket announcing the
  creation of an object; and no stage identity is allowed any action of the function
  service, so no stage can invoke a function.
\<close>

theorem stages_invoked_only_by_store_events:
  assumes "f \<in> set (stages (CallQualityScorecardStack env))"
  shows "map events (eventSources f) = [[OBJECT_CREATED]]
    \<and> map source_bucket (eventSources f) = [bucket (CallQualityScorecardStack env)]
    \<and> (invokes f n \<longrightarrow>
          from_bucket n = bucketName (bucket (CallQualityScorecardStack env))
          \<and> starts_with ''s3:ObjectCreated:'' (eventName n))
    \<and> (\<forall>g \<in> set (stages (CallQualityScorecardStack env)).
          starts_with ''lambda:'' a \<longrightarrow> \<not> identity_allows g a r)"
proof -
  let ?S = "CallQualityScorecardStack env"
  have 1: "map events (eventSources f) = [[OBJECT_CREATED]]
      \<and> map source_bucket (eventSources f) = [bucket ?S]"
    using stages_cases [OF assms]
    by (auto simp: eventSources_lambdaAudioToText eventSources_lambdaCallAnalysis bucket_stack)
  have 2: "invokes f n \<longrightarrow> from_bucket n = bucketName (bucket ?S)
      \<and> starts_with ''s3:ObjectCreated:'' (eventName n)"
    using stages_cases [OF assms]
    by (auto simp: invokes_lambdaAudioToText invokes_lambdaCallAnalysis bucket_stack
        createBucket_def)
  have 3: "\<forall>g \<in> set (stages ?S). starts_with ''lambda:'' a \<longrightarrow> \<not> identity_allows g a r"
    using stage_no_lambda_action by blast
  show ?thesis using 1 2 3 by blast
qed

text \<open>
  The claim at \<open>env0\<close>: the Transcription Stage may not invoke the Scoring Stage.
\<close>

theorem stages_invoked_only_by_store_events_witness:
  "lambdaCallAnalysis (CallQualityScorecardStack env0)
       \<in> set (stages (CallQualityScorecardStack env0))
   \<and> lambdaAudioToText (CallQualityScorecardStack env0)
       \<in> set (stages (CallQualityScorecardStack env0))
   \<and> starts_with ''lambda:'' ''lambda:InvokeFunction''
   \<and> \<not> identity_allows (lambdaAudioToText (CallQualityScorecardStack env0))
        ''lambda:InvokeFunction''
        ''arn:aws:lambda:eu-west-1:111122223333:function:call-scoring''"
proof -
  have a: "starts_with ''lambda:'' ''lambda:InvokeFunction''"
    by (simp add: starts_with_eval)
  show ?thesis
    using stages_invoked_only_by_store_events [OF stages_members(2),
        of env0 _ "''lambda:InvokeFunction''"
           "''arn:aws:lambda:eu-west-1:111122223333:function:call-scoring''"]
      stages_members [of "CallQualityScorecardStack env0"] a
    by blast
qed

section \<open>Environment and store\<close>

text \<open>
  Claim C4, as amended. The environment of each stage holds the location of the store,
  as the value of \<^verbatim>\<open>OUTPUT_BUCKET\<close>; it holds no configuration key name: the value of
  no other variable is a key under the prefix of the configuration deployment.
\<close>

theorem environment_injects_store_location_only:
  assumes "f \<in> set (stages (CallQualityScorecardStack env))"
  shows "map_of (environment f) ''OUTPUT_BUCKET''
           = Some (bucketName (bucket (CallQualityScorecardStack env)))
     \<and> (\<forall>(k, v) \<in> set (environment f).
           k \<noteq> ''OUTPUT_BUCKET''
           \<longrightarrow> \<not> names_config_key (deployConfig (CallQualityScorecardStack env)) v)
     \<and> \<not> injects_location_and_config_key f
           (bucketName (bucket (CallQualityScorecardStack env)))
           (deployConfig (CallQualityScorecardStack env))"
proof -
  let ?S = "CallQualityScorecardStack env"
  have e: "environment f = [(''OUTPUT_BUCKET'', physicalBucketName env),
      (''AWS_NODEJS_CONNECTION_REUSE_ENABLED'', ''1'')]"
    using stages_cases [OF assms]
    by (auto simp: environment_lambdaAudioToText environment_lambdaCallAnalysis)
  have b: "bucketName (bucket ?S) = physicalBucketName env"
    by (simp add: bucket_stack createBucket_def)
  have n: "\<not> names_config_key (deployConfig ?S) ''1''"
    by (simp add: names_config_key_def destination_stack starts_with_eval)
  have 1: "map_of (environment f) ''OUTPUT_BUCKET'' = Some (bucketName (bucket ?S))"
    by (simp add: e b)
  have 2: "\<forall>(k, v) \<in> set (environment f).
      k \<noteq> ''OUTPUT_BUCKET'' \<longrightarrow> \<not> names_config_key (deployConfig ?S) v"
    using n by (simp add: e)
  have 3: "\<not> injects_location_and_config_key f (bucketName (bucket ?S)) (deployConfig ?S)"
    using n by (auto simp: injects_location_and_config_key_def e b)
  show ?thesis using 1 2 3 by blast
qed

text \<open>The amended claim at \<open>env0\<close>, for the Transcription Stage.\<close>

theorem environment_injects_store_location_only_witness:
  "lambdaAudioToText (CallQualityScorecardStack env0)
       \<in> set (stages (CallQualityScorecardStack env0))
   \<and> map_of (environment (lambdaAudioToText (CallQualityScorecardStack env0)))
        ''OUTPUT_BUCKET'' = Some ''summarizer-bucket''
   \<and> map snd (environment (lambdaAudioToText (CallQualityScorecardStack env0)))
       = [''summarizer-bucket'', ''1'']"
  using environment_injects_store_location_only [OF stages_members(1), of env0]
    stages_members(1) [of "CallQualityScorecardStack env0"]
  by (simp add: bucket_stack createBucket_def env0_def environment_lambdaAudioToText)

text \<open>
  Claim C4 as written fails: the Scoring Stage is given the location of the store, and
  no configuration key name beside it.
\<close>

theorem no_config_key_in_environment:
  "\<not> injects_location_and_config_key (lambdaCallAnalysis (CallQualityScorecardStack env0))
       (bucketName (bucket (CallQualityScorecardStack env0)))
       (deployConfig (CallQualityScorecardStack env0))"
  by (simp add: injects_location_and_config_key_def environment_lambdaCallAnalysis
      names_config_key_def destination_stack bucket_stack createBucket_def env0_def
      starts_with_eval)

text \<open>
  Claim C9. For each stage, the bucket of its event source is the bucket the stack
  creates, and the variable \<^verbatim>\<open>OUTPUT_BUCKET\<close> of its environment holds the name of that
  bucket.
\<close>

theorem single_shared_bucket:
  assumes "f \<in> set (stages (CallQualityScorecardStack env))"
  shows "map source_bucket (eventSources f) = [bucket (CallQualityScorecardStack env)]
     \<and> map_of (environment f) ''OUTPUT_BUCKET''
         = Some (bucketName (bucket (CallQualityScorecardStack env)))
     \<and> bucket (CallQualityScorecardStack env) = createBucket env"
  using stages_cases [OF assms]
  by (auto simp: eventSources_lambdaAudioToText eventSources_lambdaCallAnalysis
      environment_lambdaCallAnalysis environment_lambdaAudioToText bucket_stack createBucket_def)

text \<open>The claim at \<open>env0\<close>, for the Scoring Stage.\<close>

theorem single_shared_bucket_witness:
  "lambdaCallAnalysis (CallQualityScorecardStack env0)
       \<in> set (stages (CallQualityScorecardStack env0))
   \<and> map (\<lambda>s. bucketName (source_bucket s))
        (eventSources (lambdaCallAnalysis (CallQualityScorecardStack env0)))
       = [''summarizer-bucket'']
   \<and> map_of (environment (lambdaCallAnalysis (CallQualityScorecardStack env0)))
        ''OUTPUT_BUCKET'' = Some ''summarizer-bucket''"
  using single_shared_bucket [OF stages_members(2), of env0]
    stages_members(2) [of "CallQualityScorecardStack env0"]
  by (simp add: eventSources_lambdaCallAnalysis bucket_stack createBucket_def env0_def)

text \<open>
  Claim C6. Let a file of the \<^verbatim>\<open>./config\<close> directory have the path \<open>p\<close> and the content
  \<open>c\<close>, the paths of the directory being distinct. The configuration deployment targets
  the stack's bucket, which is the bucket of every stage's event source and the bucket
  named in the environment of the Scoring Stage. Running it places \<open>c\<close> in that bucket
  under the key \<^verbatim>\<open>config/\<close>\<open>p\<close>, every key it places starts with \<^verbatim>\<open>config/\<close>, and the
  Scoring Stage then fetches \<open>c\<close> as the template named \<open>p\<close>. The deployment is a
  construct of its own, not one of the stages; no stage is invoked by the creation of an
  object under \<^verbatim>\<open>config/\<close>, and no successful run of a stage changes an object under
  \<^verbatim>\<open>config/\<close>.
\<close>

theorem config_deployed_to_store:
  assumes "(p, c) \<in> set (directory env ''./config'')"
    and "distinct (map fst (directory env ''./config''))"
  shows "destinationBucket (deployConfig (CallQualityScorecardStack env))
           = bucket (CallQualityScorecardStack env)
   \<and> (\<forall>f \<in> set (stages (CallQualityScorecardStack env)).
        map source_bucket (eventSources f)
          = [destinationBucket (deployConfig (CallQualityScorecardStack env))])
   \<and> ''config/'' @ p
        \<in> set (deployedKeys (deployConfig (CallQualityScorecardStack env)) (directory env))
   \<and> (\<forall>k \<in> set (deployedKeys (deployConfig (CallQualityScorecardStack env)) (directory env)).
        starts_with ''config/'' k)
   \<and> deploy (deployConfig (CallQualityScorecardStack env)) (directory env) w
        (bucketName (bucket (CallQualityScorecardStack env))) (''config/'' @ p) = Some c
   \<and> fetch_template (lambdaCallAnalysis (CallQualityScorecardStack env))
        (deploy (deployConfig (CallQualityScorecardStack env)) (directory env) w) p = Inr c
   \<and> (\<forall>f \<in> set (stages (CallQualityScorecardStack env)).
        constructId f \<noteq> deploymentId (deployConfig (CallQualityScorecardStack env))
        \<and> (\<forall>n. starts_with ''config/'' (key n) \<longrightarrow> \<not> invokes f n))
   \<and> (\<forall>x. starts_with ''config/'' x \<longrightarrow>
        (transcription_stage (lambdaAudioToText (CallQualityScorecardStack env))
             transcribe ext w k = Inr w'
           \<longrightarrow> w' b x = w b x)
        \<and> (scoring_stage (lambdaCallAnalysis (CallQualityScorecardStack env))
             complete parse name ext w k = Inr w'
           \<longrightarrow> w' b x = w b x))"
proof -
  let ?S = "CallQualityScorecardStack env"
  have bn: "bucketName (bucket ?S) = physicalBucketName env"
    by (simp add: bucket_stack createBucket_def)
  have 1: "destinationBucket (deployConfig ?S) = bucket ?S"
    by (simp add: deployConfig_stack bucket_stack uploadConfigToBucket_def)
  have 2: "\<forall>f \<in> set (stages ?S).
      map source_bucket (eventSources f) = [destinationBucket (deployConfig ?S)]"
    by (simp add: stages_def eventSources_lambdaAudioToText eventSources_lambdaCallAnalysis
        deployConfig_stack uploadConfigToBucket_def)
  have 3: "''config/'' @ p \<in> set (deployedKeys (deployConfig ?S) (directory env))"
    using assms(1) by (force simp: deployedKeys_stack)
  have 4: "\<forall>k \<in> set (deployedKeys (deployConfig ?S) (directory env)).
      starts_with ''config/'' k"
    using deployedKeys_config by blast
  have 5: "deploy (deployConfig ?S) (directory env) w (bucketName (bucket ?S))
      (''config/'' @ p) = Some c"
    using deploy_places [of p c "directory env" env w] assms by (simp only: bn)
  have 6: "fetch_template (lambdaCallAnalysis ?S)
      (deploy (deployConfig ?S) (directory env) w) p = Inr c"
    using 5 by (simp add: fetch_template_def location_stages bn)
  have 7: "\<forall>f \<in> set (stages ?S). constructId f \<noteq> deploymentId (deployConfig ?S)
        \<and> (\<forall>n. starts_with ''config/'' (key n) \<longrightarrow> \<not> invokes f n)"
    using prefixes_apart(6,7)
    by (simp add: stages_def constructId_stages deployConfig_stack uploadConfigToBucket_def
        invokes_lambdaAudioToText invokes_lambdaCallAnalysis)
  have 8: "\<forall>x. starts_with ''config/'' x \<longrightarrow>
        (transcription_stage (lambdaAudioToText ?S) transcribe ext w k = Inr w'
           \<longrightarrow> w' b x = w b x)
        \<and> (scoring_stage (lambdaCallAnalysis ?S) complete parse name ext w k = Inr w'
           \<longrightarrow> w' b x = w b x)"
    using transcription_stage_config scoring_stage_config by blast
  show ?thesis using 1 2 3 4 5 6 7 8 by blast
qed

text \<open>
  The claim at \<open>env0\<close>: the one file of the directory lands at \<^verbatim>\<open>config/prompt.txt\<close> in
  the bucket of \<open>env0\<close>, where the Scoring Stage fetches it.
\<close>

theorem config_deployed_to_store_witness:
  "(''prompt.txt'', ''Score the call.'') \<in> set (directory env0 ''./config'')
   \<and> distinct (map fst (directory env0 ''./config''))
   \<and> deployedKeys (deployConfig (CallQualityScorecardStack env0)) (directory env0)
       = [''config/prompt.txt'']
   \<and> deploy (deployConfig (CallQualityScorecardStack env0)) (directory env0) world0
        ''summarizer-bucket'' ''config/prompt.txt'' = Some ''Score the call.''
   \<and> fetch_template (lambdaCallAnalysis (CallQualityScorecardStack env0))
        (deploy (deployConfig (CallQualityScorecardStack env0)) (directory env0) world0)
        ''prompt.txt'' = Inr ''Score the call.''"
proof -
  have m: "(''prompt.txt'', ''Score the call.'') \<in> set (directory env0 ''./config'')"
    by (simp add: env0_def)
  have d: "distinct (map fst (directory env0 ''./config''))"
    by (simp add: env0_def)
  have k: "deployedKeys (deployConfig (CallQualityScorecardStack env0)) (directory env0)
      = [''config/prompt.txt'']"
    by (simp add: deployedKeys_stack env0_def)
  have b: "bucketName (bucket (CallQualityScorecardStack env0)) = ''summarizer-bucket''"
    by (simp add: bucket_stack createBucket_def env0_def)
  have "deploy (deployConfig (CallQualityScorecardStack env0)) (directory env0) world0
        (bucketName (bucket (CallQualityScorecardStack env0))) (''config/'' @ ''prompt.txt'')
        = Some ''Score the call.''
   \<and> fetch_template (lambdaCallAnalysis (CallQualityScorecardStack env0))
        (deploy (deployConfig (CallQualityScorecardStack env0)) (directory env0) world0)
        ''prompt.txt'' = Inr ''Score the call.''"
    using config_deployed_to_store [OF m d, of world0] by blast
  then show ?thesis using m d k b by simp
qed




section \<open>Time budgets\<close>

text \<open>
  Claim C5. In every environment the time budget of the Scoring Stage (120 seconds) is
  strictly greater than the time budget of the Transcription Stage (15 seconds).
\<close>

theorem scoring_timeout_exceeds_transcription:
  "timeout (lambdaAudioToText (CallQualityScorecardStack env))
     < timeout (lambdaCallAnalysis (CallQualityScorecardStack env))"
  by (simp add: timeout_lambdaAudioToText timeout_lambdaCallAnalysis)

text \<open>The claim at \<open>env0\<close>.\<close>

theorem scoring_timeout_exceeds_transcription_witness:
  "timeout (lambdaAudioToText (CallQualityScorecardStack env0)) = 15
   \<and> timeout (lambdaCallAnalysis (CallQualityScorecardStack env0)) = 120
   \<and> timeout (lambdaAudioToText (CallQualityScorecardStack env0))
       < timeout (lambdaCallAnalysis (CallQualityScorecardStack env0))"
  using scoring_timeout_exceeds_transcription [of env0]
  by (simp add: timeout_lambdaAudioToText timeout_lambdaCallAnalysis)

end
